theory Spec2Isabelle
  imports Main
begin

section \<open>The private blockchain of \<open>project1-private-blockchain/src/blockchain.js\<close>\<close>

text \<open>
  The class \<open>Blockchain\<close> keeps an array of blocks (\<open>this.chain\<close>) and a counter
  (\<open>this.height\<close>). Its methods mutate both; here every method takes the ledger and
  returns the ledger it leaves behind, together with what it resolves or rejects with.
  A rejected promise is \<open>Inl (Error msg)\<close>, with the message of the JavaScript \<open>Error\<close>.

  Three things the class calls live outside the file and are parameters of the model:
  \<^item> the wall clock \<open>new Date().getTime()\<close>, a number of milliseconds (\<open>now\<close>);
  \<^item> \<open>SHA256(JSON.stringify(block)).toString()\<close> of crypto-js, a function of the block
    object as it is when line 76 runs; it may throw (\<open>Inl\<close>);
  \<^item> \<open>bitcoinMessage.verify(message, address, signature)\<close>, which answers true or false,
    or throws.
\<close>

subsection \<open>Values\<close>

datatype error = Error string

text \<open>
  The two object literals the class hands to the block constructor:
  \<open>{ data: 'Genesis Block' }\<close> and \<open>{ owner: address, star: star }\<close>. The star itself
  is opaque to the ledger, hence the type parameter.
\<close>

datatype 'a payload = Data string | OwnerStar string 'a

text \<open>
  Modelled from the spec: the class \<open>Block\<close> of \<open>block.js\<close> is not among the sources;
  only its uses are (\<open>new BlockClass.Block(data)\<close>, the fields \<open>height\<close>, \<open>time\<close>,
  \<open>previousBlockHash\<close> and \<open>hash\<close> assigned by \<open>_addBlock\<close>, and the method
  \<open>validate\<close>). The spec gives a block a payload, a position, a timestamp, the previous
  hash and its own hash, the last four "left unset until the Ledger assigns them";
  unset is \<open>None\<close>. The payload is kept as the value given to the constructor: the spec
  requires its encoding to round-trip.
\<close>

record 'a block =
  hash :: "string option"
  height :: "nat option"
  body :: "'a payload"
  time :: "string option"
  previousBlockHash :: "string option"

definition Block :: "'a payload \<Rightarrow> 'a block" where
  "Block data =
     \<lparr>hash = None, height = None, body = data, time = None, previousBlockHash = None\<rparr>"

record 'a blockchain =
  this_chain :: "'a block list"
  this_height :: int

type_synonym 'a hasher = "'a block \<Rightarrow> error + string"

type_synonym verifier = "string \<Rightarrow> string \<Rightarrow> string \<Rightarrow> error + bool"

subsection \<open>The timestamp: \<open>new Date().getTime().toString().slice(0, -3)\<close>\<close>

definition digit :: "nat \<Rightarrow> char" where
  "digit d = ''0123456789'' ! d"

text \<open>\<open>Number.prototype.toString\<close> on a non-negative integer: its decimal digits.\<close>

fun toString :: "nat \<Rightarrow> string" where
  "toString n = (if n < 10 then [digit n] else toString (n div 10) @ [digit (n mod 10)])"

declare toString.simps [simp del]

text \<open>
  \<open>s.slice(0, -3)\<close>: a negative end counts from the end of the string and is clamped
  at 0, so a string of three characters or fewer gives the empty string.
\<close>

definition slice_0_m3 :: "string \<Rightarrow> string" where
  "slice_0_m3 s = take (length s - 3) s"

definition timestamp :: "nat \<Rightarrow> string" where
  "timestamp now = slice_0_m3 (toString now)"

subsection \<open>The ledger\<close>

text \<open>Lines 68 to 73 of \<open>_addBlock\<close>: the fields assigned before the block is hashed.\<close>

definition prepare :: "nat \<Rightarrow> 'a block \<Rightarrow> 'a blockchain \<Rightarrow> 'a block" where
  "prepare now block self =
     (let block = block\<lparr>height := Some (length (this_chain self))\<rparr>;
          block = block\<lparr>time := Some (timestamp now)\<rparr>
      in if length (this_chain self) > 0
         then block\<lparr>previousBlockHash := hash (last (this_chain self))\<rparr>
         else block)"

text \<open>
  \<open>_addBlock\<close>. The assignment \<open>self.height = self.chain.length\<close> (line 69) runs before
  the hash is computed (line 76); when the hash throws, the \<open>catch\<close> rethrows
  \<open>'Error adding block!'\<close> and nothing is pushed, but the assignment is not undone.
  The block is a fresh object at both call sites (\<open>initializeChain\<close>, \<open>submitStar\<close>), so
  the in-place update of the argument is the returned record.
\<close>

definition addBlock ::
  "'a hasher \<Rightarrow> nat \<Rightarrow> 'a block \<Rightarrow> 'a blockchain \<Rightarrow> (error + 'a block) \<times> 'a blockchain" where
  "addBlock H now block self =
     (let block = prepare now block self;
          self = self\<lparr>this_height := int (length (this_chain self))\<rparr>
      in case H block of
           Inl e \<Rightarrow> (Inl (Error ''Error adding block!''), self)
         | Inr h \<Rightarrow>
             (let block = block\<lparr>hash := Some h\<rparr>
              in (Inr block, self\<lparr>this_chain := this_chain self @ [block]\<rparr>)))"

text \<open>
  \<open>initializeChain\<close>: the genesis block, when the height is still \<open>-1\<close>; a rejection of
  \<open>_addBlock\<close> is logged and dropped (\<open>.catch\<close>). \<open>_addBlock\<close> has no \<open>await\<close> inside,
  so its body has run when the constructor returns.
\<close>

definition initializeChain :: "'a hasher \<Rightarrow> nat \<Rightarrow> 'a blockchain \<Rightarrow> 'a blockchain" where
  "initializeChain H now self =
     (if this_height self = - 1
      then snd (addBlock H now (Block (Data ''Genesis Block'')) self)
      else self)"

definition Blockchain :: "'a hasher \<Rightarrow> nat \<Rightarrow> 'a blockchain" where
  "Blockchain H now = initializeChain H now \<lparr>this_chain = [], this_height = - 1\<rparr>"

definition getChainHeight :: "'a blockchain \<Rightarrow> int" where
  "getChainHeight self = this_height self"

definition requestMessageOwnershipVerification :: "nat \<Rightarrow> string \<Rightarrow> string" where
  "requestMessageOwnershipVerification now address =
     address @ '':'' @ timestamp now @ '':starRegistry''"

text \<open>
  \<open>submitStar\<close>, first the body of its \<open>try\<close>, then the \<open>catch\<close> around it, which
  replaces whatever was thrown inside (by \<open>verify\<close>, by \<open>_addBlock\<close>, or by the
  \<open>else\<close> branch itself) with \<open>'Error registering new Block!'\<close>. The message is passed
  to \<open>verify\<close> and used nowhere else.
\<close>

definition submitStar_try ::
  "verifier \<Rightarrow> 'a hasher \<Rightarrow> nat \<Rightarrow> string \<Rightarrow> string \<Rightarrow> string \<Rightarrow> 'a \<Rightarrow> 'a blockchain
     \<Rightarrow> (error + 'a block) \<times> 'a blockchain" where
  "submitStar_try V H now address message signature star self =
     (case V message address signature of
        Inl e \<Rightarrow> (Inl e, self)
      | Inr ok \<Rightarrow>
          if ok then addBlock H now (Block (OwnerStar address star)) self
          else (Inl (Error ''Error in verifying submitted message!''), self))"

definition submitStar ::
  "verifier \<Rightarrow> 'a hasher \<Rightarrow> nat \<Rightarrow> string \<Rightarrow> string \<Rightarrow> string \<Rightarrow> 'a \<Rightarrow> 'a blockchain
     \<Rightarrow> (error + 'a block) \<times> 'a blockchain" where
  "submitStar V H now address message signature star self =
     (case submitStar_try V H now address message signature star self of
        (Inl e, self') \<Rightarrow> (Inl (Error ''Error registering new Block!''), self')
      | (Inr result, self') \<Rightarrow> (Inr result, self'))"

subsection \<open>Validation\<close>

text \<open>
  Modelled from the spec: \<open>Block.validate\<close> of \<open>block.js\<close> is not among the sources.
  The spec: it "recomputes the Hasher over its current fields and returns whether the
  result equals the stored hash", the hasher being taken over every field except the
  hash itself, that is over the block as it was when \<open>_addBlock\<close> hashed it, with the
  hash still unset.
\<close>

definition validate :: "'a hasher \<Rightarrow> 'a block \<Rightarrow> error + bool" where
  "validate H self =
     (case H (self\<lparr>hash := None\<rparr>) of
        Inl e \<Rightarrow> Inl e
      | Inr h \<Rightarrow> Inr (hash self = Some h))"

text \<open>
  \<open>Promise.all\<close> over the mapped callbacks: every result in the order of the array, or
  a rejection as soon as one callback rejects.
\<close>

fun promise_all :: "(error + 'b) list \<Rightarrow> error + 'b list" where
  "promise_all [] = Inr []"
| "promise_all (Inl e # rs) = Inl e"
| "promise_all (Inr x # rs) = (case promise_all rs of Inl e \<Rightarrow> Inl e | Inr xs \<Rightarrow> Inr (x # xs))"

text \<open>
  \<open>validateChain\<close>: each callback pushes the result of \<open>block.validate()\<close> on
  \<open>errorLog\<close>, whatever the result is; the callbacks resume in the order of the chain.
  Nothing else is pushed, and no field of one block is compared with a field of another.
\<close>

definition validateChain :: "'a hasher \<Rightarrow> 'a blockchain \<Rightarrow> error + bool list" where
  "validateChain H self =
     (case promise_all (map (validate H) (this_chain self)) of
        Inl e \<Rightarrow> Inl (Error ''Error validating chain!'')
      | Inr errorLog \<Rightarrow> Inr errorLog)"

subsection \<open>Ledgers the class can build\<close>

text \<open>
  The ledger after the constructor and any number of calls of \<open>_addBlock\<close>, each on a
  freshly constructed block (as \<open>submitStar\<close> calls it), at the given clock readings.
  Calls that reject are part of the sequence.
\<close>

definition appends ::
  "'a hasher \<Rightarrow> (nat \<times> 'a payload) list \<Rightarrow> 'a blockchain \<Rightarrow> 'a blockchain" where
  "appends H ops self = foldl (\<lambda>s (now, d). snd (addBlock H now (Block d) s)) self ops"

text \<open>The properties of a ledger that the appends maintain.\<close>

definition sealed :: "'a hasher \<Rightarrow> 'a block \<Rightarrow> bool" where
  "sealed H b = (case hash b of None \<Rightarrow> False | Some h \<Rightarrow> H (b\<lparr>hash := None\<rparr>) = Inr h)"

definition linked :: "'a block list \<Rightarrow> bool" where
  "linked bs =
     (\<forall>i < length bs.
        height (bs ! i) = Some i \<and>
        (0 < i \<longrightarrow> hash (bs ! (i - 1)) \<noteq> None \<and>
                  previousBlockHash (bs ! i) = hash (bs ! (i - 1))))"

subsection \<open>A sample run\<close>

text \<open>
  A stand-in for the digest on stars that are strings: it lists the fields of the block
  and throws on the star \<open>''<cyclic>''\<close>, as \<open>JSON.stringify\<close> does on an object that
  refers to itself.
\<close>

definition opt :: "string option \<Rightarrow> string" where
  "opt x = (case x of None \<Rightarrow> ''null'' | Some s \<Rightarrow> s)"

definition demo_hasher :: "string hasher" where
  "demo_hasher b =
     (case body b of
        Data s \<Rightarrow> Inr (''#'' @ s @ ''|'' @ opt (time b) @ ''|'' @ opt (previousBlockHash b)
                        @ ''|'' @ opt (hash b))
      | OwnerStar a s \<Rightarrow>
          if s = ''<cyclic>'' then Inl (Error ''TypeError'')
          else Inr (''#'' @ a @ ''/'' @ s @ ''|'' @ opt (time b) @ ''|''
                      @ opt (previousBlockHash b) @ ''|'' @ opt (hash b)))"

definition accept :: verifier where
  "accept message address signature = Inr True"

definition reject :: verifier where
  "reject message address signature = Inr False"

definition demo_chain :: "string blockchain" where
  "demo_chain = Blockchain demo_hasher 1645341000000"

definition demo_two :: "string blockchain" where
  "demo_two =
     snd (submitStar accept demo_hasher 1645342000000 ''addrA''
            ''addrA:1645341000:starRegistry'' ''sig'' ''demo'' demo_chain)"

text \<open>The first block's \<open>hash\<close> field overwritten in place.\<close>

definition demo_mutated :: "string blockchain" where
  "demo_mutated =
     demo_two\<lparr>this_chain :=
       (this_chain demo_two)[0 := (this_chain demo_two ! 0)\<lparr>hash := Some ''forged''\<rparr>]\<rparr>"

text \<open>
  The second block pointed at some other predecessor and hashed again, so that it
  passes its own check.
\<close>

definition reseal :: "'a hasher \<Rightarrow> 'a block \<Rightarrow> 'a block" where
  "reseal H b = b\<lparr>hash := (case H (b\<lparr>hash := None\<rparr>) of Inl e \<Rightarrow> None | Inr h \<Rightarrow> Some h)\<rparr>"

definition demo_relinked :: "string blockchain" where
  "demo_relinked =
     demo_two\<lparr>this_chain :=
       (this_chain demo_two)[1 :=
          reseal demo_hasher
            ((this_chain demo_two ! 1)\<lparr>previousBlockHash := Some ''elsewhere''\<rparr>)]\<rparr>"

text \<open>
  The ledger a claim leaves behind when its signature verifies and the hash throws.
\<close>

definition demo_failed :: "string blockchain" where
  "demo_failed =
     snd (submitStar accept demo_hasher 1645342000000 ''addrA''
            ''addrA:1645342000:starRegistry'' ''sig'' ''<cyclic>'' demo_chain)"

section \<open>What one append does\<close>

lemma addBlock_Inl:
  "H (prepare now b s) = Inl e \<Longrightarrow>
   addBlock H now b s =
     (Inl (Error ''Error adding block!''), s\<lparr>this_height := int (length (this_chain s))\<rparr>)"
  by (simp add: addBlock_def Let_def)

lemma addBlock_Inr:
  "H (prepare now b s) = Inr h \<Longrightarrow>
   addBlock H now b s =
     (Inr ((prepare now b s)\<lparr>hash := Some h\<rparr>),
      s\<lparr>this_height := int (length (this_chain s)),
        this_chain := this_chain s @ [(prepare now b s)\<lparr>hash := Some h\<rparr>]\<rparr>)"
  by (simp add: addBlock_def Let_def)

lemma addBlock_cases:
  obtains (fails) e where "H (prepare now b s) = Inl e"
      "addBlock H now b s =
         (Inl (Error ''Error adding block!''), s\<lparr>this_height := int (length (this_chain s))\<rparr>)"
  | (pushes) h where "H (prepare now b s) = Inr h"
      "addBlock H now b s =
         (Inr ((prepare now b s)\<lparr>hash := Some h\<rparr>),
          s\<lparr>this_height := int (length (this_chain s)),
            this_chain := this_chain s @ [(prepare now b s)\<lparr>hash := Some h\<rparr>]\<rparr>)"
  by (cases "H (prepare now b s)") (auto dest: addBlock_Inl addBlock_Inr)

lemma prepare_fresh_hash: "hash (prepare now (Block d) s) = None"
  by (simp add: prepare_def Block_def Let_def)

lemma prepare_height: "height (prepare now b s) = Some (length (this_chain s))"
  by (simp add: prepare_def Let_def)

lemma prepare_previous:
  "this_chain s \<noteq> [] \<Longrightarrow> previousBlockHash (prepare now b s) = hash (last (this_chain s))"
  by (simp add: prepare_def Let_def)

lemma prepare_body: "body (prepare now b s) = body b"
  by (simp add: prepare_def Let_def)

lemma appends_Cons:
  "appends H ((now, d) # ops) s = appends H ops (snd (addBlock H now (Block d) s))"
  by (simp add: appends_def)

section \<open>Every stored hash is the digest of the block without it\<close>

lemma sealed_fresh:
  assumes "H (prepare now (Block d) s) = Inr h"
  shows "sealed H ((prepare now (Block d) s)\<lparr>hash := Some h\<rparr>)"
proof -
  have "(prepare now (Block d) s)\<lparr>hash := None\<rparr> = prepare now (Block d) s"
    using prepare_fresh_hash [of now d s] by simp
  then show ?thesis using assms by (simp add: sealed_def)
qed

lemma sealed_step:
  assumes "\<forall>b \<in> set (this_chain s). sealed H b"
  shows "\<forall>b \<in> set (this_chain (snd (addBlock H now (Block d) s))). sealed H b"
proof (cases rule: addBlock_cases [of H now "Block d" s])
  case (fails e)
  then show ?thesis using assms by simp
next
  case (pushes h)
  then show ?thesis using assms sealed_fresh [of H now d s h] by simp
qed

lemma sealed_appends:
  "\<forall>b \<in> set (this_chain s). sealed H b \<Longrightarrow>
   \<forall>b \<in> set (this_chain (appends H ops s)). sealed H b"
proof (induction ops arbitrary: s)
  case Nil
  then show ?case by (simp add: appends_def)
next
  case (Cons op ops)
  obtain now d where op: "op = (now, d)" by (cases op)
  show ?case
    unfolding op appends_Cons using Cons.IH [OF sealed_step [OF Cons.prems]] .
qed

lemma sealed_Blockchain: "\<forall>b \<in> set (this_chain (Blockchain H now)). sealed H b"
  using sealed_step [of "\<lparr>this_chain = [], this_height = - 1\<rparr>" H now "Data ''Genesis Block''"]
  by (simp add: Blockchain_def initializeChain_def)

lemma sealed_hash: "sealed H b \<Longrightarrow> hash b \<noteq> None"
  by (auto simp: sealed_def split: option.splits)

section \<open>Positions and links\<close>

lemma linked_snoc:
  assumes "linked bs" and "height b = Some (length bs)"
    and "bs \<noteq> [] \<Longrightarrow> hash (last bs) \<noteq> None \<and> previousBlockHash b = hash (last bs)"
  shows "linked (bs @ [b])"
  unfolding linked_def
proof (intro allI impI)
  fix i assume i: "i < length (bs @ [b])"
  show "height ((bs @ [b]) ! i) = Some i \<and>
        (0 < i \<longrightarrow> hash ((bs @ [b]) ! (i - 1)) \<noteq> None \<and>
           previousBlockHash ((bs @ [b]) ! i) = hash ((bs @ [b]) ! (i - 1)))"
  proof (cases "i < length bs")
    case True
    then have "i - 1 < length bs" by simp
    with True show ?thesis using assms(1) by (simp add: linked_def nth_append)
  next
    case False
    then have eq: "i = length bs" using i by simp
    show ?thesis
    proof (cases "bs = []")
      case True
      then show ?thesis using eq assms(2) by simp
    next
      case False
      then have "(bs @ [b]) ! (i - 1) = last bs"
        using eq by (simp add: nth_append last_conv_nth)
      then show ?thesis using eq assms(2) assms(3) [OF False] by simp
    qed
  qed
qed

lemma linked_step:
  assumes "linked (this_chain s)" and "\<forall>b \<in> set (this_chain s). hash b \<noteq> None"
  shows "linked (this_chain (snd (addBlock H now b s)))"
proof (cases rule: addBlock_cases [of H now b s])
  case (fails e)
  then show ?thesis using assms by simp
next
  case (pushes h)
  let ?b = "(prepare now b s)\<lparr>hash := Some h\<rparr>"
  have "linked (this_chain s @ [?b])"
  proof (rule linked_snoc [OF assms(1)])
    show "height ?b = Some (length (this_chain s))" by (simp add: prepare_height)
  next
    assume ne: "this_chain s \<noteq> []"
    then have "last (this_chain s) \<in> set (this_chain s)" by simp
    then show "hash (last (this_chain s)) \<noteq> None \<and>
        previousBlockHash ?b = hash (last (this_chain s))"
      using assms(2) ne by (simp add: prepare_previous)
  qed
  then show ?thesis using pushes by simp
qed

lemma hashed_step:
  assumes "\<forall>b \<in> set (this_chain s). hash b \<noteq> None"
  shows "\<forall>b \<in> set (this_chain (snd (addBlock H now b s))). hash b \<noteq> None"
  by (cases rule: addBlock_cases [of H now b s]) (use assms in auto)

lemma linked_appends:
  "linked (this_chain s) \<Longrightarrow> \<forall>b \<in> set (this_chain s). hash b \<noteq> None \<Longrightarrow>
   linked (this_chain (appends H ops s))"
proof (induction ops arbitrary: s)
  case Nil
  then show ?case by (simp add: appends_def)
next
  case (Cons op ops)
  obtain now d where op: "op = (now, d)" by (cases op)
  show ?case
    unfolding op appends_Cons
    using Cons.IH [OF linked_step [OF Cons.prems] hashed_step [OF Cons.prems(2)]] .
qed

lemma linked_Blockchain: "linked (this_chain (Blockchain H now))"
  using linked_step [of "\<lparr>this_chain = [], this_height = - 1\<rparr>" H now
      "Block (Data ''Genesis Block'')"]
  by (simp add: Blockchain_def initializeChain_def linked_def)

lemma hashed_Blockchain: "\<forall>b \<in> set (this_chain (Blockchain H now)). hash b \<noteq> None"
  using sealed_Blockchain [of H now] by (auto dest: sealed_hash)

section \<open>The sample run, evaluated\<close>

lemma timestamp_demo: "timestamp 1645341000000 = ''1645341000''"
  by (simp add: timestamp_def slice_0_m3_def toString.simps digit_def)

lemma timestamp_demo_later: "timestamp 1645342000000 = ''1645342000''"
  by (simp add: timestamp_def slice_0_m3_def toString.simps digit_def)

lemmas demo_defs =
  addBlock_def prepare_def Block_def demo_hasher_def opt_def Let_def
  timestamp_demo timestamp_demo_later

lemma demo_chain_value:
  "demo_chain =
     \<lparr>this_chain =
        [\<lparr>hash = Some ''#Genesis Block|1645341000|null|null'', height = Some 0,
          body = Data ''Genesis Block'', time = Some ''1645341000'',
          previousBlockHash = None\<rparr>],
      this_height = 0\<rparr>"
  by (simp add: demo_chain_def Blockchain_def initializeChain_def demo_defs)

lemma demo_two_value:
  "demo_two =
     \<lparr>this_chain =
        [\<lparr>hash = Some ''#Genesis Block|1645341000|null|null'', height = Some 0,
          body = Data ''Genesis Block'', time = Some ''1645341000'',
          previousBlockHash = None\<rparr>,
         \<lparr>hash = Some ''#addrA/demo|1645342000|#Genesis Block|1645341000|null|null|null'',
          height = Some 1, body = OwnerStar ''addrA'' ''demo'', time = Some ''1645342000'',
          previousBlockHash = Some ''#Genesis Block|1645341000|null|null''\<rparr>],
      this_height = 1\<rparr>"
  by (simp add: demo_two_def demo_chain_value submitStar_def submitStar_try_def accept_def
      demo_defs)


lemma demo_mutated_value:
  "demo_mutated =
     \<lparr>this_chain =
        [\<lparr>hash = Some ''forged'', height = Some 0,
          body = Data ''Genesis Block'', time = Some ''1645341000'',
          previousBlockHash = None\<rparr>,
         \<lparr>hash = Some ''#addrA/demo|1645342000|#Genesis Block|1645341000|null|null|null'',
          height = Some 1, body = OwnerStar ''addrA'' ''demo'', time = Some ''1645342000'',
          previousBlockHash = Some ''#Genesis Block|1645341000|null|null''\<rparr>],
      this_height = 1\<rparr>"
  by (simp add: demo_mutated_def demo_two_value)

lemma demo_relinked_value:
  "demo_relinked =
     \<lparr>this_chain =
        [\<lparr>hash = Some ''#Genesis Block|1645341000|null|null'', height = Some 0,
          body = Data ''Genesis Block'', time = Some ''1645341000'',
          previousBlockHash = None\<rparr>,
         \<lparr>hash = Some ''#addrA/demo|1645342000|elsewhere|null'',
          height = Some 1, body = OwnerStar ''addrA'' ''demo'', time = Some ''1645342000'',
          previousBlockHash = Some ''elsewhere''\<rparr>],
      this_height = 1\<rparr>"
  by (simp add: demo_relinked_def demo_two_value reseal_def demo_hasher_def opt_def)

lemma demo_failed_value:
  "demo_failed =
     \<lparr>this_chain =
        [\<lparr>hash = Some ''#Genesis Block|1645341000|null|null'', height = Some 0,
          body = Data ''Genesis Block'', time = Some ''1645341000'',
          previousBlockHash = None\<rparr>],
      this_height = 1\<rparr>"
  by (simp add: demo_failed_def demo_chain_value submitStar_def submitStar_try_def accept_def
      demo_defs)

lemmas validate_defs = validateChain_def validate_def demo_hasher_def opt_def

section \<open>The timestamp is the clock in seconds\<close>

lemma toString_step: "10 \<le> n \<Longrightarrow> toString n = toString (n div 10) @ [digit (n mod 10)]"
  by (subst toString.simps) simp

lemma timestamp_seconds:
  assumes "1000 \<le> now"
  shows "timestamp now = toString (now div 1000)"
proof -
  have 1: "toString now = toString (now div 10) @ [digit (now mod 10)]"
    using assms by (intro toString_step) simp
  have 2: "toString (now div 10) = toString (now div 10 div 10) @ [digit (now div 10 mod 10)]"
    using assms by (intro toString_step) simp
  have 3: "toString (now div 10 div 10) =
      toString (now div 10 div 10 div 10) @ [digit (now div 10 div 10 mod 10)]"
    using assms by (intro toString_step) simp
  have "now div 10 div 10 div 10 = now div 1000"
    by (simp add: div_mult2_eq [symmetric])
  then show ?thesis
    unfolding timestamp_def slice_0_m3_def 1 2 3 by simp
qed

section \<open>What validation and a rejected append return\<close>

lemma promise_all_length: "promise_all rs = Inr xs \<Longrightarrow> length xs = length rs"
  by (induction rs arbitrary: xs rule: promise_all.induct) (auto split: sum.splits)

lemma validateChain_length:
  "validateChain H s = Inr errorLog \<Longrightarrow> length errorLog = length (this_chain s)"
  using promise_all_length [of "map (validate H) (this_chain s)" errorLog]
  by (simp add: validateChain_def split: sum.splits)

lemma failed_append_height:
  assumes "fst (addBlock H now b s) = Inl e"
  shows "this_chain (snd (addBlock H now b s)) = this_chain s \<and>
         getChainHeight (snd (addBlock H now b s)) = int (length (this_chain s))"
  using assms
  by (cases rule: addBlock_cases [of H now b s]) (simp_all add: getChainHeight_def)

section \<open>The claims\<close>

text \<open>
  C1. A claim whose challenge is more than 300 seconds old is to be refused, the ledger
  untouched. \<open>submitStar\<close> reads neither the timestamp of the message nor the clock
  for that: here the challenge issued at second 1645341000 is submitted 1000 seconds
  later with a signature that verifies, and the call resolves with a new block; the
  chain grows from one block to two and the height from 0 to 1.
\<close>

theorem stale_claim_is_appended:
  "requestMessageOwnershipVerification 1645341000000 ''addrA''
     = ''addrA:1645341000:starRegistry'' \<and>
   timestamp 1645342000000 = ''1645342000'' \<and>
   fst (submitStar accept demo_hasher 1645342000000 ''addrA''
          ''addrA:1645341000:starRegistry'' ''sig'' ''demo'' demo_chain)
     = Inr \<lparr>hash = Some ''#addrA/demo|1645342000|#Genesis Block|1645341000|null|null|null'',
            height = Some 1, body = OwnerStar ''addrA'' ''demo'',
            time = Some ''1645342000'',
            previousBlockHash = Some ''#Genesis Block|1645341000|null|null''\<rparr> \<and>
   length (this_chain demo_chain) = 1 \<and> getChainHeight demo_chain = 0 \<and>
   length (this_chain (snd (submitStar accept demo_hasher 1645342000000 ''addrA''
          ''addrA:1645341000:starRegistry'' ''sig'' ''demo'' demo_chain))) = 2 \<and>
   getChainHeight (snd (submitStar accept demo_hasher 1645342000000 ''addrA''
          ''addrA:1645341000:starRegistry'' ''sig'' ''demo'' demo_chain)) = 1"
  by (simp add: requestMessageOwnershipVerification_def submitStar_def submitStar_try_def
      accept_def demo_chain_value getChainHeight_def demo_defs)

text \<open>
  C2. A block whose \<open>previousBlockHash\<close> differs from the hash stored in the block before
  it is to be reported by \<open>validateChain\<close>. It is not: with the first block's hash
  overwritten, the only \<open>False\<close> of the log is that block's own check, and the entry of
  the following block is \<open>True\<close>; with the second block pointed elsewhere and hashed
  again, the log is that of the intact chain.
\<close>

theorem forged_link_not_reported:
  "previousBlockHash (this_chain demo_mutated ! 1) \<noteq> hash (this_chain demo_mutated ! 0) \<and>
   validateChain demo_hasher demo_mutated = Inr [False, True] \<and>
   previousBlockHash (this_chain demo_relinked ! 1) \<noteq> hash (this_chain demo_relinked ! 0) \<and>
   validateChain demo_hasher demo_relinked = Inr [True, True] \<and>
   validateChain demo_hasher demo_relinked = validateChain demo_hasher demo_two"
  by (simp add: demo_mutated_value demo_relinked_value demo_two_value validate_defs)

text \<open>
  C3. On a consistent chain \<open>validateChain\<close> is to return the empty list. It returns one
  entry for every block, \<open>True\<close> for a block that passes: \<open>[True]\<close> right after the
  constructor, \<open>[True, True]\<close> after one star, whose link is intact.
\<close>

theorem consistent_chain_log_not_empty:
  "validateChain demo_hasher demo_chain = Inr [True] \<and>
   previousBlockHash (this_chain demo_two ! 1) = hash (this_chain demo_two ! 0) \<and>
   validateChain demo_hasher demo_two = Inr [True, True]"
  by (simp add: demo_chain_value demo_two_value validate_defs)

text \<open>
  C4. An append that fails is to leave the ledger as it was. When the hash throws,
  \<open>_addBlock\<close> rejects with \<open>'Error adding block!'\<close> and the chain is the same, but
  \<open>getChainHeight\<close> has moved from 0 to 1.
\<close>

theorem failed_append_moves_height:
  "fst (addBlock demo_hasher 1645342000000 (Block (OwnerStar ''addrA'' ''<cyclic>'')) demo_chain)
     = Inl (Error ''Error adding block!'') \<and>
   this_chain (snd (addBlock demo_hasher 1645342000000
       (Block (OwnerStar ''addrA'' ''<cyclic>'')) demo_chain)) = this_chain demo_chain \<and>
   getChainHeight demo_chain = 0 \<and>
   getChainHeight (snd (addBlock demo_hasher 1645342000000
       (Block (OwnerStar ''addrA'' ''<cyclic>'')) demo_chain)) = 1"
  by (simp add: demo_chain_value getChainHeight_def demo_defs)

text \<open>
  C5. Every block the ledger has appended carries, as its hash, the digest of its other
  fields: for every block of the chain after the constructor and any sequence of appends
  of freshly constructed blocks, the hasher applied to the block with the hash field
  unset (the block \<open>_addBlock\<close> hashed at line 76) returns the stored hash.
\<close>

theorem stored_hash_is_digest:
  assumes "b \<in> set (this_chain (appends H ops (Blockchain H now)))"
  shows "\<exists>h. hash b = Some h \<and> H (b\<lparr>hash := None\<rparr>) = Inr h"
proof -
  have "\<forall>b \<in> set (this_chain (appends H ops (Blockchain H now))). sealed H b"
    by (rule sealed_appends [OF sealed_Blockchain])
  with assms have "sealed H b" by blast
  then show ?thesis by (cases "hash b") (simp_all add: sealed_def)
qed

theorem stored_hash_is_digest_witness:
  "this_chain demo_two ! 1 \<in> set (this_chain (appends demo_hasher
       [(1645342000000, OwnerStar ''addrA'' ''demo'')] (Blockchain demo_hasher 1645341000000)))
   \<and> demo_hasher ((this_chain demo_two ! 1)\<lparr>hash := None\<rparr>)
       = Inr ''#addrA/demo|1645342000|#Genesis Block|1645341000|null|null|null''
   \<and> hash (this_chain demo_two ! 1)
       = Some ''#addrA/demo|1645342000|#Genesis Block|1645341000|null|null|null''"
proof -
  have run: "appends demo_hasher [(1645342000000, OwnerStar ''addrA'' ''demo'')]
      (Blockchain demo_hasher 1645341000000) = demo_two"
    unfolding demo_chain_def [symmetric]
    by (simp add: appends_def demo_two_value demo_chain_value demo_defs)
  have mem: "this_chain demo_two ! 1 \<in> set (this_chain (appends demo_hasher
       [(1645342000000, OwnerStar ''addrA'' ''demo'')] (Blockchain demo_hasher 1645341000000)))"
    unfolding run by (simp add: demo_two_value)
  show ?thesis
    using mem stored_hash_is_digest [OF mem] by (simp add: demo_two_value)
qed

text \<open>
  C6. After the constructor and any sequence of appends, the block at index \<open>i\<close> of the
  chain has position \<open>i\<close>, and for \<open>i > 0\<close> its \<open>previousBlockHash\<close> is the hash stored in
  the block at index \<open>i - 1\<close>, which is set.
\<close>

theorem positions_and_links:
  assumes "bs = this_chain (appends H ops (Blockchain H now))" and "i < length bs"
  shows "height (bs ! i) = Some i \<and>
         (0 < i \<longrightarrow> hash (bs ! (i - 1)) \<noteq> None \<and>
                   previousBlockHash (bs ! i) = hash (bs ! (i - 1)))"
proof -
  have "linked (this_chain (appends H ops (Blockchain H now)))"
    by (rule linked_appends [OF linked_Blockchain hashed_Blockchain])
  then have "linked bs" using assms(1) by simp
  then show ?thesis using assms(2) unfolding linked_def by blast
qed

theorem positions_and_links_witness:
  "(1::nat) < length (this_chain demo_two) \<and>
   height (this_chain demo_two ! 1) = Some 1 \<and>
   hash (this_chain demo_two ! 0) \<noteq> None \<and>
   previousBlockHash (this_chain demo_two ! 1) = hash (this_chain demo_two ! 0)"
proof -
  have run: "this_chain demo_two = this_chain (appends demo_hasher
      [(1645342000000, OwnerStar ''addrA'' ''demo'')] (Blockchain demo_hasher 1645341000000))"
    unfolding demo_chain_def [symmetric]
    by (simp add: appends_def demo_two_value demo_chain_value demo_defs)
  have len: "(1::nat) < length (this_chain demo_two)"
    by (simp add: demo_two_value)
  show ?thesis
    using len positions_and_links [OF run len] by simp
qed

text \<open>
  C7, as stated: every fresh claim with an accepted signature is to succeed and to raise
  the height by exactly 1. The challenge here is issued at the very second it is
  submitted and its signature verifies. With a star the hash throws on, \<open>submitStar\<close>
  rejects, the rejection of \<open>_addBlock\<close> being rethrown by its \<open>catch\<close>. On the ledger
  that call leaves behind, the next such claim resolves with a block and the chain grows
  from one block to two, while \<open>getChainHeight\<close> is 1 before and 1 after.
\<close>

theorem accepted_claim_counterexample:
  "requestMessageOwnershipVerification 1645342000000 ''addrA''
     = ''addrA:1645342000:starRegistry'' \<and>
   accept ''addrA:1645342000:starRegistry'' ''addrA'' ''sig'' = Inr True \<and>
   fst (submitStar accept demo_hasher 1645342000000 ''addrA''
          ''addrA:1645342000:starRegistry'' ''sig'' ''<cyclic>'' demo_chain)
     = Inl (Error ''Error registering new Block!'') \<and>
   fst (submitStar accept demo_hasher 1645342000000 ''addrA''
          ''addrA:1645342000:starRegistry'' ''sig'' ''demo'' demo_failed)
     = Inr \<lparr>hash = Some ''#addrA/demo|1645342000|#Genesis Block|1645341000|null|null|null'',
            height = Some 1, body = OwnerStar ''addrA'' ''demo'',
            time = Some ''1645342000'',
            previousBlockHash = Some ''#Genesis Block|1645341000|null|null''\<rparr> \<and>
   length (this_chain demo_failed) = 1 \<and>
   length (this_chain (snd (submitStar accept demo_hasher 1645342000000 ''addrA''
          ''addrA:1645342000:starRegistry'' ''sig'' ''demo'' demo_failed))) = 2 \<and>
   getChainHeight demo_failed = 1 \<and>
   getChainHeight (snd (submitStar accept demo_hasher 1645342000000 ''addrA''
          ''addrA:1645342000:starRegistry'' ''sig'' ''demo'' demo_failed)) = 1"
  by (simp add: requestMessageOwnershipVerification_def submitStar_def submitStar_try_def
      accept_def demo_chain_value demo_failed_value getChainHeight_def demo_defs)

text \<open>
  C7, amended. A claim whose signature \<open>verify\<close> accepts, with a block the hasher does
  not throw on, on a ledger whose height is the length of its chain minus one (as it is
  after the constructor and after every append that succeeded): \<open>submitStar\<close> resolves
  with a block, the chain is the old chain followed by that block, the height has grown
  by exactly 1, and the body of the block is \<open>{ owner: address, star: star }\<close>.
\<close>

theorem accepted_claim_is_appended:
  assumes "V message address signature = Inr True"
    and "H (prepare now (Block (OwnerStar address star)) s) = Inr h"
    and "this_height s = int (length (this_chain s)) - 1"
  shows "case submitStar V H now address message signature star s of
           (Inl e, s') \<Rightarrow> False
         | (Inr blk, s') \<Rightarrow>
             this_chain s' = this_chain s @ [blk] \<and>
             getChainHeight s' = getChainHeight s + 1 \<and>
             body blk = OwnerStar address star \<and>
             height blk = Some (length (this_chain s)) \<and>
             hash blk = Some h"
  using assms
  by (simp add: submitStar_def submitStar_try_def addBlock_Inr getChainHeight_def
      prepare_height prepare_body Block_def)

theorem accepted_claim_is_appended_witness:
  "accept ''addrA:1645342000:starRegistry'' ''addrA'' ''sig'' = Inr True \<and>
   demo_hasher (prepare 1645342000000 (Block (OwnerStar ''addrA'' ''demo'')) demo_chain)
      = Inr ''#addrA/demo|1645342000|#Genesis Block|1645341000|null|null|null'' \<and>
   this_height demo_chain = int (length (this_chain demo_chain)) - 1 \<and>
   (case submitStar accept demo_hasher 1645342000000 ''addrA''
           ''addrA:1645342000:starRegistry'' ''sig'' ''demo'' demo_chain of
      (Inl e, s') \<Rightarrow> False
    | (Inr blk, s') \<Rightarrow>
        this_chain s' = this_chain demo_chain @ [blk] \<and>
        getChainHeight s' = getChainHeight demo_chain + 1 \<and>
        body blk = OwnerStar ''addrA'' ''demo'' \<and>
        height blk = Some (length (this_chain demo_chain)) \<and>
        hash blk = Some ''#addrA/demo|1645342000|#Genesis Block|1645341000|null|null|null'')"
proof -
  have v: "accept ''addrA:1645342000:starRegistry'' ''addrA'' ''sig'' = Inr True"
    by (simp add: accept_def)
  have h: "demo_hasher (prepare 1645342000000 (Block (OwnerStar ''addrA'' ''demo'')) demo_chain)
      = Inr ''#addrA/demo|1645342000|#Genesis Block|1645341000|null|null|null''"
    by (simp add: demo_chain_value demo_defs)
  have c: "this_height demo_chain = int (length (this_chain demo_chain)) - 1"
    by (simp add: demo_chain_value)
  show ?thesis
    using v h c accepted_claim_is_appended [where V = accept and H = demo_hasher, OF v h c]
    by blast
qed

text \<open>
  C8, as stated: a rejected signature is to fail with an error of its own kind. The error
  thrown for it inside the \<open>try\<close> (\<open>'Error in verifying submitted message!'\<close>) is caught
  by the \<open>catch\<close> of the same method; what the caller gets is the error that a failed
  append under an accepted signature gives as well.
\<close>

theorem rejected_signature_counterexample:
  "fst (submitStar reject demo_hasher 1645342000000 ''addrA''
          ''addrA:1645341000:starRegistry'' ''sig'' ''demo'' demo_chain)
     \<noteq> Inl (Error ''Error in verifying submitted message!'') \<and>
   fst (submitStar reject demo_hasher 1645342000000 ''addrA''
          ''addrA:1645341000:starRegistry'' ''sig'' ''demo'' demo_chain)
     = fst (submitStar accept demo_hasher 1645342000000 ''addrA''
          ''addrA:1645341000:starRegistry'' ''sig'' ''<cyclic>'' demo_chain)"
  by (simp add: submitStar_def submitStar_try_def reject_def accept_def demo_chain_value
      demo_defs)

text \<open>
  C8, amended. When \<open>verify\<close> answers false, \<open>submitStar\<close> rejects with
  \<open>'Error registering new Block!'\<close> and the ledger, chain and height, is exactly the one
  it was called on.
\<close>

theorem rejected_signature_leaves_ledger:
  "V message address signature = Inr False \<Longrightarrow>
   submitStar V H now address message signature star s =
     (Inl (Error ''Error registering new Block!''), s)"
  by (simp add: submitStar_def submitStar_try_def)

theorem rejected_signature_leaves_ledger_witness:
  "reject ''addrA:1645341000:starRegistry'' ''addrA'' ''sig'' = Inr False \<and>
   submitStar reject demo_hasher 1645342000000 ''addrA'' ''addrA:1645341000:starRegistry''
       ''sig'' ''demo'' demo_chain = (Inl (Error ''Error registering new Block!''), demo_chain)"
proof -
  have v: "reject ''addrA:1645341000:starRegistry'' ''addrA'' ''sig'' = Inr False"
    by (simp add: reject_def)
  show ?thesis
    using v rejected_signature_leaves_ledger [where V = reject and H = demo_hasher
        and now = 1645342000000 and star = "''demo''" and s = demo_chain, OF v]
    by simp
qed

text \<open>
  C9. For every address, at a clock of at least one second past the epoch, the challenge
  is the address, a colon, the decimal digits of the clock in whole seconds, and
  \<open>:starRegistry\<close>.
\<close>

theorem challenge_format:
  "1000 \<le> now \<Longrightarrow>
   requestMessageOwnershipVerification now address =
     address @ '':'' @ toString (now div 1000) @ '':starRegistry''"
  by (simp add: requestMessageOwnershipVerification_def timestamp_seconds)

theorem challenge_format_witness:
  "(1000::nat) \<le> 1645341645123 \<and>
   requestMessageOwnershipVerification 1645341645123 ''1LPpX52fiwusu2VWzy6UDm9qxbQbPt9wMY'' =
     ''1LPpX52fiwusu2VWzy6UDm9qxbQbPt9wMY:1645341645:starRegistry''"
  using challenge_format [of 1645341645123 "''1LPpX52fiwusu2VWzy6UDm9qxbQbPt9wMY''"]
  by (simp add: toString.simps digit_def)

text \<open>
  C10. When the genesis append of the constructor succeeds, and after every append that
  succeeds (from any ledger), \<open>this.height\<close> is the length of the chain minus one, the
  last block of the chain is the block appended, and \<open>getChainHeight\<close> is its position.
\<close>

theorem height_is_last_position:
  "(fst (addBlock H now (Block (Data ''Genesis Block'')) \<lparr>this_chain = [], this_height = - 1\<rparr>)
      = Inr genesis \<longrightarrow>
    getChainHeight (Blockchain H now) = int (length (this_chain (Blockchain H now))) - 1 \<and>
    last (this_chain (Blockchain H now)) = genesis \<and>
    height genesis = Some (nat (getChainHeight (Blockchain H now)))) \<and>
   (addBlock H now' b s = (Inr blk, s') \<longrightarrow>
    getChainHeight s' = int (length (this_chain s')) - 1 \<and>
    last (this_chain s') = blk \<and>
    height blk = Some (nat (getChainHeight s')))"
proof (intro conjI impI)
  let ?e = "\<lparr>this_chain = [], this_height = - 1\<rparr> :: 'a blockchain"
  assume g: "fst (addBlock H now (Block (Data ''Genesis Block'')) ?e) = Inr genesis"
  have B: "Blockchain H now = snd (addBlock H now (Block (Data ''Genesis Block'')) ?e)"
    by (simp add: Blockchain_def initializeChain_def)
  show "getChainHeight (Blockchain H now) = int (length (this_chain (Blockchain H now))) - 1"
    unfolding B using g
    by (cases rule: addBlock_cases [of H now "Block (Data ''Genesis Block'')" ?e])
      (simp_all add: getChainHeight_def)
  show "last (this_chain (Blockchain H now)) = genesis"
    unfolding B using g
    by (cases rule: addBlock_cases [of H now "Block (Data ''Genesis Block'')" ?e]) simp_all
  show "height genesis = Some (nat (getChainHeight (Blockchain H now)))"
    unfolding B using g
    by (cases rule: addBlock_cases [of H now "Block (Data ''Genesis Block'')" ?e])
      (auto simp: getChainHeight_def prepare_height)
next
  assume a: "addBlock H now' b s = (Inr blk, s')"
  show "getChainHeight s' = int (length (this_chain s')) - 1"
    using a by (cases rule: addBlock_cases [of H now' b s]) (auto simp: getChainHeight_def)
  show "last (this_chain s') = blk"
    using a by (cases rule: addBlock_cases [of H now' b s]) auto
  show "height blk = Some (nat (getChainHeight s'))"
    using a by (cases rule: addBlock_cases [of H now' b s])
      (auto simp: getChainHeight_def prepare_height)
qed

theorem height_is_last_position_witness:
  "fst (addBlock demo_hasher 1645341000000 (Block (Data ''Genesis Block''))
          \<lparr>this_chain = [], this_height = - 1\<rparr>) = Inr (this_chain demo_chain ! 0) \<and>
   getChainHeight (Blockchain demo_hasher 1645341000000) = 0 \<and>
   length (this_chain (Blockchain demo_hasher 1645341000000)) = 1 \<and>
   addBlock demo_hasher 1645342000000 (Block (OwnerStar ''addrA'' ''demo'')) demo_chain
     = (Inr (this_chain demo_two ! 1), demo_two) \<and>
   getChainHeight demo_two = 1 \<and> length (this_chain demo_two) = 2 \<and>
   height (this_chain demo_two ! 1) = Some 1"
proof -
  have g: "fst (addBlock demo_hasher 1645341000000 (Block (Data ''Genesis Block''))
          \<lparr>this_chain = [], this_height = - 1\<rparr>) = Inr (this_chain demo_chain ! 0)"
    by (simp add: demo_chain_value demo_defs)
  have a: "addBlock demo_hasher 1645342000000 (Block (OwnerStar ''addrA'' ''demo'')) demo_chain
     = (Inr (this_chain demo_two ! 1), demo_two)"
    by (simp add: demo_chain_value demo_two_value demo_defs)
  have v: "Blockchain demo_hasher 1645341000000 = demo_chain"
    by (simp add: demo_chain_def)
  show ?thesis
    using g a height_is_last_position [of demo_hasher 1645341000000 "this_chain demo_chain ! 0"
        1645342000000 "Block (OwnerStar ''addrA'' ''demo'')" demo_chain
        "this_chain demo_two ! 1" demo_two]
    unfolding v by (simp add: demo_chain_value demo_two_value)
qed

end
